theory Spec2Isabelle
  imports Main "HOL-Library.Word"
begin

section \<open>The TCP connection shim of core/tcp\_conn.go\<close>

text \<open>
  The Go file bridges lwIP's callbacks and a proxy-side handler. Everything the methods do
  besides returning a value is recorded as an event: calls into the engine (the \<open>C.*\<close>
  functions and the package's \<open>SetTCP...Callback\<close> helpers), calls of the handler, the
  bookkeeping of argument slots, the cancel function, the broadcasts of the write gate and
  the release and re-acquisition of \<open>lwipMutex\<close> around a handler call. What the engine or
  the handler answers is an argument of the model, since neither is part of the file. The
  methods run one after the other; the per-connection mutex, which only guards the three
  flags, is not modelled.
\<close>

subsection \<open>Values\<close>

type_synonym byte = "8 word"

text \<open>A \<open>net.Addr\<close> as \<open>%v\<close> prints it, and a Go \<open>error\<close> as its message.\<close>

type_synonym addr = string
type_synonym error = string

text \<open>
  Modelled from the spec: lwIP's \<open>err_t\<close> and its codes \<open>ERR_OK\<close> ("accepted") and
  \<open>ERR_MEM\<close> ("out of memory, try later") come from lwip/err.h, which is not among the
  sources. They carry lwIP's values 0 and -1; the Go code only compares an answer of the
  engine with them, in this order.
\<close>

type_synonym err_t = int

definition ERR_OK :: err_t where
  "ERR_OK = 0"

definition ERR_MEM :: err_t where
  "ERR_MEM = - 1"

text \<open>
  Modelled from the spec: \<open>NewLWIPError\<close> and the codes \<open>LWIP_ERR_OK\<close> and \<open>LWIP_ERR_ABRT\<close>
  are declared in another file of the package, not among the sources. They are the "ok,
  keep going" and the "aborted" signal that a callback returns to the engine.
\<close>

datatype lwip_error = LWIP_ERR_OK | LWIP_ERR_ABRT

text \<open>\<open>%v\<close> and \<open>%d\<close> of a Go \<open>int\<close>: decimal digits, a minus sign for a negative number.\<close>

definition digit_char :: "nat \<Rightarrow> char" where
  "digit_char d = ''0123456789'' ! d"

function show_nat :: "nat \<Rightarrow> string" where
  "show_nat n = (if n < 10 then [digit_char n] else show_nat (n div 10) @ [digit_char (n mod 10)])"
  by pat_completeness auto
termination
  by (relation "measure (\<lambda>n. n)") auto

declare show_nat.simps [simp del]

definition show_int :: "int \<Rightarrow> string" where
  "show_int i = (if i < 0 then CHR ''-'' # show_nat (nat (- i)) else show_nat (nat i))"

subsection \<open>The connection, the registry and the events\<close>

text \<open>
  The fields of \<open>tcpConn\<close> that the methods read or write. \<open>pcb\<close> is the native handle (a
  pointer, here a number); the handler, the context and the condition variable are only
  called, and their calls are events.
\<close>

record tcpConn =
  pcb :: nat
  network :: string
  remoteAddr :: addr
  localAddr :: addr
  connKeyArg :: nat
  connKey :: "32 word"
  closing :: bool
  localClosed :: bool
  aborting :: bool

datatype event =
    NewConnKeyArg nat
  | SetConnKeyVal nat "32 word"
  | FreeConnKeyArg nat
  | C_tcp_arg nat "nat option"
  | SetTCPRecvCallback nat
  | SetTCPSentCallback nat
  | SetTCPErrCallback nat
  | SetTCPPollCallback nat
  | C_tcp_recv_nil nat
  | C_tcp_sent_nil nat
  | C_tcp_err_nil nat
  | C_tcp_poll_nil nat
  | C_tcp_recved nat "16 word"
  | C_tcp_write nat "byte list" "16 word"
  | C_tcp_output nat
  | C_tcp_close nat
  | C_tcp_abort nat
  | Cancel
  | Broadcast
  | LwipUnlock
  | LwipLock
  | H_Connect addr
  | H_DidReceive "byte list"
  | H_DidSend "16 word"
  | H_LocalDidClose
  | H_DidClose

text \<open>
  The global map \<open>tcpConns\<close> (key to connection, the connection named by its handle) and
  the events so far.
\<close>

record world =
  tcpConns :: "32 word \<rightharpoonup> nat"
  trace :: "event list"

definition emit :: "event list \<Rightarrow> world \<Rightarrow> world" where
  "emit es w = w\<lparr>trace := trace w @ es\<rparr>"

subsection \<open>tcpWrite\<close>

text \<open>
  \<open>&data[0]\<close> panics on an empty slice, before the engine is called: the result \<open>None\<close>.
  Otherwise the engine is handed the slice and \<open>C.u16_t(len(data))\<close>, and \<open>ret\<close> is what
  \<open>tcp_write\<close> answers.
\<close>

definition tcpWrite :: "tcpConn \<Rightarrow> byte list \<Rightarrow> err_t \<Rightarrow> ((nat \<times> error option) \<times> event list) option" where
  "tcpWrite conn data ret =
     (if data = [] then None
      else if ret = ERR_OK then
        Some ((length data, None),
              [C_tcp_write (pcb conn) data (of_nat (length data)), C_tcp_output (pcb conn)])
      else if ret = ERR_MEM then
        Some ((0, None), [C_tcp_write (pcb conn) data (of_nat (length data))])
      else
        Some ((0, Some (''lwip tcp_write failed with error code: '' @ show_int ret)),
              [C_tcp_write (pcb conn) data (of_nat (length data))]))"

subsection \<open>Release and the two teardown routines\<close>

text \<open>
  \<open>Release\<close> frees the argument slot and deletes the registry entry only when the registry
  holds an entry for the key; otherwise it does nothing.
\<close>

definition Release :: "tcpConn \<Rightarrow> world \<Rightarrow> world" where
  "Release conn w =
     (case tcpConns w (connKey conn) of
        Some found \<Rightarrow>
          (emit [FreeConnKeyArg (connKeyArg conn)] w)\<lparr>tcpConns := (tcpConns w)(connKey conn := None)\<rparr>
      | None \<Rightarrow> w)"

text \<open>\<open>ret\<close> is the answer of \<open>tcp_close\<close>.\<close>

definition closeInternal :: "err_t \<Rightarrow> tcpConn \<Rightarrow> world \<Rightarrow> error option \<times> world" where
  "closeInternal ret conn w =
     (let w1 = emit [C_tcp_arg (pcb conn) None, C_tcp_recv_nil (pcb conn), C_tcp_sent_nil (pcb conn),
                     C_tcp_err_nil (pcb conn), C_tcp_poll_nil (pcb conn)] w;
          w2 = Release conn w1;
          w3 = emit [Cancel] w2;
          w4 = emit [C_tcp_close (pcb conn)] w3
      in if ret = ERR_OK then (None, w4)
         else (Some (''close TCP connection failed, lwip error code '' @ show_int ret), w4))"

definition abortInternal :: "tcpConn \<Rightarrow> world \<Rightarrow> world" where
  "abortInternal conn w = emit [C_tcp_abort (pcb conn)] (Release conn w)"

subsection \<open>The state evaluation and the callbacks around it\<close>

text \<open>The error that \<open>closeInternal\<close> returns is dropped by \<open>CheckState\<close>, as in the source.\<close>

definition CheckState :: "err_t \<Rightarrow> tcpConn \<Rightarrow> world \<Rightarrow> lwip_error \<times> world" where
  "CheckState ret conn w =
     (if \<not> localClosed conn then (LWIP_ERR_OK, emit [Broadcast] w)
      else
        let w1 = (if closing conn \<or> localClosed conn then snd (closeInternal ret conn w) else w)
        in if aborting conn then (LWIP_ERR_ABRT, abortInternal conn w1)
           else (LWIP_ERR_OK, w1))"

definition Close :: "tcpConn \<Rightarrow> error option \<times> tcpConn" where
  "Close conn = (None, conn\<lparr>closing := True\<rparr>)"

definition setLocalClosed :: "tcpConn \<Rightarrow> world \<Rightarrow> error option \<times> tcpConn \<times> world" where
  "setLocalClosed conn w = (None, conn\<lparr>localClosed := True\<rparr>, emit [Broadcast] w)"

definition Abort :: "tcpConn \<Rightarrow> world \<Rightarrow> tcpConn \<times> world" where
  "Abort conn w = (conn\<lparr>aborting := True\<rparr>, emit [Broadcast] w)"

definition Err :: "tcpConn \<Rightarrow> world \<Rightarrow> world" where
  "Err conn w = emit [H_DidClose] (emit [Cancel] (Release conn w))"

definition Sent :: "16 word \<Rightarrow> err_t \<Rightarrow> tcpConn \<Rightarrow> world \<Rightarrow> lwip_error \<times> world" where
  "Sent len ret conn w = CheckState ret conn (emit [H_DidSend len] w)"

definition Poll :: "err_t \<Rightarrow> tcpConn \<Rightarrow> world \<Rightarrow> lwip_error \<times> world" where
  "Poll ret conn w = CheckState ret conn w"

definition LocalDidClose :: "err_t \<Rightarrow> tcpConn \<Rightarrow> world \<Rightarrow> lwip_error \<times> tcpConn \<times> world" where
  "LocalDidClose ret conn w =
     (let w1 = emit [H_LocalDidClose] w;
          (e, conn', w2) = setLocalClosed conn w1;
          (r, w3) = CheckState ret conn' w2
      in (r, conn', w3))"

subsection \<open>Receive\<close>

text \<open>\<open>hres\<close> is what the handler's \<open>DidReceive\<close> returns: \<open>None\<close> for \<open>nil\<close>.\<close>

definition Receive :: "byte list \<Rightarrow> error option \<Rightarrow> tcpConn \<Rightarrow> world \<Rightarrow> error option \<times> world" where
  "Receive data hres conn w =
     (if closing conn then
        (Some (''connection '' @ localAddr conn @ ''->'' @ remoteAddr conn @ '' was closed by remote''), w)
      else if aborting conn then
        (Some (''connection '' @ localAddr conn @ ''->'' @ remoteAddr conn @ '' is aborting''), w)
      else
        let w1 = emit [LwipUnlock, H_DidReceive data, LwipLock] w
        in case hres of
             Some err \<Rightarrow> (Some (''write proxy failed: '' @ err), w1)
           | None \<Rightarrow> (None, emit [C_tcp_recved (pcb conn) (of_nat (length data))] w1))"

subsection \<open>Write\<close>

text \<open>
  \<open>Write\<close> runs beside the engine's thread and the handler's, so what it reads changes
  between the turns of its loop. A turn of the loop is given what it observes: the
  connection as \<open>isLocalClosed\<close> and \<open>isAborting\<close> find it, \<open>pcb.snd_buf\<close> as read under the
  engine lock (an unsigned count, here a natural number), and the answer \<open>tcp_write\<close> gives
  if it is called. The first turn runs at once; every later turn follows a return of
  \<open>canWrite.Wait()\<close>, and a wait that nothing ends blocks for ever.
\<close>

record turn =
  seen :: tcpConn
  snd_buf :: nat
  tcp_write_ret :: err_t

datatype 'a go = Returns 'a | Panics | Blocks

text \<open>
  A call of \<open>tcpWrite\<close> made by \<open>Write\<close>: the \<open>snd_buf\<close> read in the same lock window, the
  slice passed, the engine's answer and the engine calls made.
\<close>

record tcpWrite_call =
  window :: nat
  chunk :: "byte list"
  answer :: err_t
  engine :: "event list"

text \<open>
  How a call of \<open>Write\<close> ends: what it returns (or that it panics or never returns), the
  calls of \<open>tcpWrite\<close> it made, and whether the write gate's mutex \<open>canWrite.L\<close> is locked
  when the call is over. \<open>Write\<close> locks that mutex first. It unlocks it after the loop and
  on the error return that follows \<open>tcpWrite\<close>; the two returns on the flags do not unlock
  it; \<open>Wait\<close> gives it up while the writer sleeps. The engine lock \<open>lwipMutex\<close> is taken
  after the tests of the flags and given back before every return and every wait, so it is
  not tracked.
\<close>

record write_end =
  outcome :: "(nat \<times> error option) go"
  calls :: "tcpWrite_call list"
  gate_held :: bool

fun Write_loop :: "turn \<Rightarrow> turn list \<Rightarrow> byte list \<Rightarrow> nat \<Rightarrow> write_end" where
  "Write_loop t ts data totalWritten =
     (if data = [] then \<lparr>outcome = Returns (totalWritten, None), calls = [], gate_held = False\<rparr>
      else if localClosed (seen t) then
        \<lparr>outcome = Returns (0, Some (''connection '' @ localAddr (seen t) @ ''->''
                                      @ remoteAddr (seen t) @ '' was closed by local'')),
         calls = [], gate_held = True\<rparr>
      else if aborting (seen t) then
        \<lparr>outcome = Returns (0, Some (''connection '' @ localAddr (seen t) @ ''->''
                                      @ remoteAddr (seen t) @ '' is aborting'')),
         calls = [], gate_held = True\<rparr>
      else
        let toWrite = (if length data > snd_buf t then snd_buf t else length data)
        in if toWrite > 0 then
             (case tcpWrite (seen t) (take toWrite data) (tcp_write_ret t) of
                None \<Rightarrow>
                  \<lparr>outcome = Panics,
                   calls = [\<lparr>window = snd_buf t, chunk = take toWrite data,
                             answer = tcp_write_ret t, engine = []\<rparr>],
                   gate_held = True\<rparr>
              | Some ((written, err), evs) \<Rightarrow>
                  let call = \<lparr>window = snd_buf t, chunk = take toWrite data,
                              answer = tcp_write_ret t, engine = evs\<rparr>
                  in (case err of
                        Some e \<Rightarrow>
                          \<lparr>outcome = Returns (totalWritten + written, Some e), calls = [call],
                           gate_held = False\<rparr>
                      | None \<Rightarrow>
                          if drop written data = [] then
                            \<lparr>outcome = Returns (totalWritten + written, None), calls = [call],
                             gate_held = False\<rparr>
                          else (case ts of
                                  [] \<Rightarrow> \<lparr>outcome = Blocks, calls = [call], gate_held = False\<rparr>
                                | t' # ts' \<Rightarrow>
                                    (let rest = Write_loop t' ts' (drop written data) (totalWritten + written)
                                     in rest\<lparr>calls := call # calls rest\<rparr>))))
           else (case ts of
                   [] \<Rightarrow> \<lparr>outcome = Blocks, calls = [], gate_held = False\<rparr>
                 | t' # ts' \<Rightarrow> Write_loop t' ts' data totalWritten))"

declare Write_loop.simps [simp del]

text \<open>
  \<open>held\<close> says whether \<open>canWrite.L\<close> is locked when \<open>Write\<close> is called, by a call that is
  over and so will never unlock it: then \<open>canWrite.L.Lock()\<close> does not return.
\<close>

definition Write :: "bool \<Rightarrow> turn \<Rightarrow> turn list \<Rightarrow> byte list \<Rightarrow> write_end" where
  "Write held t ts data =
     (if held then \<lparr>outcome = Blocks, calls = [], gate_held = True\<rparr>
      else Write_loop t ts data 0)"

text \<open>
  The bytes the engine took in a call: on \<open>ERR_OK\<close>, as many bytes of the slice as the
  16-bit length it was given says.
\<close>

fun taken :: "err_t \<Rightarrow> event \<Rightarrow> nat" where
  "taken ret (C_tcp_write p d n) = (if ret = ERR_OK then unat n else 0)"
| "taken ret other = 0"

definition accepted :: "tcpWrite_call list \<Rightarrow> nat" where
  "accepted cs = sum_list (map (\<lambda>c. sum_list (map (taken (answer c)) (engine c))) cs)"

text \<open>
  What a call is checked for: the slice is not empty, it fits the \<open>snd_buf\<close> of its lock
  window, and it is the slice the engine's \<open>tcp_write\<close> was handed first.
\<close>

fun handed :: "event \<Rightarrow> byte list option" where
  "handed (C_tcp_write p d n) = Some d"
| "handed other = None"

definition sound_call :: "tcpWrite_call \<Rightarrow> bool" where
  "sound_call c = (chunk c \<noteq> [] \<and> length (chunk c) \<le> window c
      \<and> map handed (take 1 (engine c)) = [Some (chunk c)])"

subsection \<open>NewTCPConnection\<close>

text \<open>
  The arguments beside the handle \<open>p\<close>: the endpoints read from it (as \<open>ParseTCPAddr\<close>
  renders \<open>local_ip\<close>, \<open>local_port\<close> and \<open>remote_ip\<close>, \<open>remote_port\<close>), the slot that
  \<open>NewConnKeyArg\<close> returns, the key that \<open>rand.Uint32\<close> returns, whether
  \<open>tcpConnectionHandler\<close> is set, and what the handler's \<open>Connect\<close> returns.
\<close>

definition NewTCPConnection ::
  "nat \<Rightarrow> addr \<Rightarrow> addr \<Rightarrow> nat \<Rightarrow> 32 word \<Rightarrow> bool \<Rightarrow> error option \<Rightarrow> world \<Rightarrow> (error + tcpConn) \<times> world" where
  "NewTCPConnection p pcb_local pcb_remote arg key registered connect w =
     (let w0 = emit [NewConnKeyArg arg, SetConnKeyVal arg key] w
      in if \<not> registered then (Inl ''no registered TCP connection handlers found'', w0)
         else
           let conn = \<lparr>pcb = p, network = ''tcp'', remoteAddr = pcb_local, localAddr = pcb_remote,
                       connKeyArg = arg, connKey = key,
                       closing = False, localClosed = False, aborting = False\<rparr>;
               w1 = w0\<lparr>tcpConns := (tcpConns w0)(key \<mapsto> p)\<rparr>;
               w2 = emit [C_tcp_arg p (Some arg), SetTCPRecvCallback p, SetTCPSentCallback p,
                          SetTCPErrCallback p, SetTCPPollCallback p,
                          LwipUnlock, H_Connect (remoteAddr conn), LwipLock] w1
           in case connect of
                Some err \<Rightarrow> (Inl err, w2)
              | None \<Rightarrow> (Inr conn, w2))"

subsection \<open>A connection's lifetime\<close>

text \<open>
  What the engine and the handler's side do to one connection, in the order they do it:
  the four callbacks, the engine's data callback, and the two requests \<open>Close\<close> and
  \<open>Abort\<close>. Each entry carries the answers the method needs.
\<close>

datatype action =
    DoSent "16 word" err_t
  | DoPoll err_t
  | DoLocalDidClose err_t
  | DoErr
  | DoReceive "byte list" "error option"
  | DoClose
  | DoAbort

fun step :: "action \<Rightarrow> tcpConn \<times> world \<Rightarrow> tcpConn \<times> world" where
  "step (DoSent len ret) (conn, w) = (conn, snd (Sent len ret conn w))"
| "step (DoPoll ret) (conn, w) = (conn, snd (Poll ret conn w))"
| "step (DoLocalDidClose ret) (conn, w) = snd (LocalDidClose ret conn w)"
| "step DoErr (conn, w) = (conn, Err conn w)"
| "step (DoReceive data hres) (conn, w) = (conn, snd (Receive data hres conn w))"
| "step DoClose (conn, w) = (snd (Close conn), w)"
| "step DoAbort (conn, w) = Abort conn w"

fun run :: "action list \<Rightarrow> tcpConn \<times> world \<Rightarrow> tcpConn \<times> world" where
  "run [] s = s"
| "run (a # as) s = run as (step a s)"

text \<open>How often the registry entry was released: the frees of argument slots in the trace.\<close>

fun is_free :: "event \<Rightarrow> bool" where
  "is_free (FreeConnKeyArg a) = True"
| "is_free other = False"

definition releases :: "world \<Rightarrow> nat" where
  "releases w = length (filter is_free (trace w))"

text \<open>
  The bookkeeping of one key is sound when a slot was freed once if the registry has no
  entry for the key, and never if it has one.
\<close>

definition once :: "32 word \<Rightarrow> world \<Rightarrow> bool" where
  "once k w = (releases w = (if tcpConns w k = None then 1 else 0))"

text \<open>The notifications the handler got of received data, and the engine's acknowledgments.\<close>

fun received :: "event list \<Rightarrow> byte list list" where
  "received [] = []"
| "received (H_DidReceive d # es) = d # received es"
| "received (e # es) = received es"

fun acknowledged :: "event list \<Rightarrow> 16 word list" where
  "acknowledged [] = []"
| "acknowledged (C_tcp_recved p n # es) = n # acknowledged es"
| "acknowledged (e # es) = acknowledged es"

text \<open>The engine's two ways of giving up a handle, and the actions that set \<open>localClosed\<close>.\<close>

fun is_teardown :: "event \<Rightarrow> bool" where
  "is_teardown (C_tcp_close p) = True"
| "is_teardown (C_tcp_abort p) = True"
| "is_teardown other = False"

fun is_local_close :: "action \<Rightarrow> bool" where
  "is_local_close (DoLocalDidClose ret) = True"
| "is_local_close other = False"

subsection \<open>A concrete connection\<close>

text \<open>
  The connection and the world that \<open>NewTCPConnection\<close> leaves for the handle 7 with the
  slot 3 and the key 42, used where a property is run on an explicit input.
\<close>

definition conn0 :: tcpConn where
  "conn0 = \<lparr>pcb = 7, network = ''tcp'', remoteAddr = ''10.0.0.2:80'', localAddr = ''10.0.0.1:4321'',
             connKeyArg = 3, connKey = 42,
             closing = False, localClosed = False, aborting = False\<rparr>"

definition w0 :: world where
  "w0 = \<lparr>tcpConns = [42 \<mapsto> 7],
         trace = [NewConnKeyArg 3, SetConnKeyVal 3 42, C_tcp_arg 7 (Some 3), SetTCPRecvCallback 7,
                  SetTCPSentCallback 7, SetTCPErrCallback 7, SetTCPPollCallback 7,
                  LwipUnlock, H_Connect ''10.0.0.2:80'', LwipLock]\<rparr>"

text \<open>
  Four turns of the loop of \<open>Write\<close> on that connection: the engine has room for one byte
  and takes it; the connection was locally closed meanwhile; the engine answers with the
  hard error -6; the connection was aborted meanwhile.
\<close>

definition turn1 :: turn where
  "turn1 = \<lparr>seen = conn0, snd_buf = 1, tcp_write_ret = ERR_OK\<rparr>"

definition turn2 :: turn where
  "turn2 = \<lparr>seen = conn0\<lparr>localClosed := True\<rparr>, snd_buf = 1, tcp_write_ret = ERR_OK\<rparr>"

definition turn3 :: turn where
  "turn3 = \<lparr>seen = conn0, snd_buf = 1, tcp_write_ret = - 6\<rparr>"

definition turn4 :: turn where
  "turn4 = \<lparr>seen = conn0\<lparr>aborting := True\<rparr>, snd_buf = 1, tcp_write_ret = ERR_OK\<rparr>"

section \<open>Properties\<close>

subsection \<open>Decimal rendering\<close>

lemma below_ten:
  "(d::nat) < 10 \<Longrightarrow> d = 0 \<or> d = 1 \<or> d = 2 \<or> d = 3 \<or> d = 4 \<or> d = 5 \<or> d = 6 \<or> d = 7 \<or> d = 8 \<or> d = 9"
  by arith

lemma digit_char_inj: "a < 10 \<Longrightarrow> b < 10 \<Longrightarrow> digit_char a = digit_char b \<Longrightarrow> a = b"
  by (drule below_ten, drule below_ten) (auto simp: digit_char_def)

lemma digit_char_not_minus: "d < 10 \<Longrightarrow> digit_char d \<noteq> CHR ''-''"
  by (drule below_ten) (auto simp: digit_char_def)

lemma show_nat_small: "n < 10 \<Longrightarrow> show_nat n = [digit_char n]"
  by (subst show_nat.simps) simp

lemma show_nat_large: "\<not> n < 10 \<Longrightarrow> show_nat n = show_nat (n div 10) @ [digit_char (n mod 10)]"
  by (subst show_nat.simps) simp

lemma show_nat_nonempty: "show_nat n \<noteq> []"
  by (cases "n < 10") (simp_all add: show_nat_small show_nat_large)

lemma minus_notin_show_nat: "CHR ''-'' \<notin> set (show_nat n)"
proof (induction n rule: show_nat.induct)
  case (1 n)
  show ?case
  proof (cases "n < 10")
    case True
    then show ?thesis
      using digit_char_not_minus [of n] by (auto simp: show_nat_small)
  next
    case False
    then show ?thesis
      using "1.IH" digit_char_not_minus [of "n mod 10"] by (auto simp: show_nat_large)
  qed
qed

text \<open>Two numbers with the same digits are the same number: the last digit, then the rest.\<close>

lemma show_nat_inj: "show_nat m = show_nat n \<Longrightarrow> m = n"
proof (induction m arbitrary: n rule: show_nat.induct)
  case (1 m)
  show ?case
  proof (cases "m < 10")
    case m: True
    show ?thesis
    proof (cases "n < 10")
      case True
      with m "1.prems" have "digit_char m = digit_char n"
        by (simp add: show_nat_small)
      with m True show ?thesis by (rule digit_char_inj)
    next
      case False
      with m "1.prems" show_nat_nonempty [of "n div 10"] show ?thesis
        by (cases "show_nat (n div 10)") (auto simp: show_nat_small show_nat_large)
    qed
  next
    case m: False
    show ?thesis
    proof (cases "n < 10")
      case True
      with m "1.prems" show_nat_nonempty [of "m div 10"] show ?thesis
        by (cases "show_nat (m div 10)") (auto simp: show_nat_small show_nat_large)
    next
      case False
      with m "1.prems" have rest: "show_nat (m div 10) = show_nat (n div 10)"
        and digit: "digit_char (m mod 10) = digit_char (n mod 10)"
        by (simp_all add: show_nat_large)
      from "1.IH" [OF m rest] have q: "m div 10 = n div 10" .
      from digit have r: "m mod 10 = n mod 10"
        by (intro digit_char_inj) simp_all
      from q r show ?thesis by (metis div_mult_mod_eq)
    qed
  qed
qed

lemma show_int_sign:
  assumes "a < 0" and "\<not> b < 0"
  shows "show_int a \<noteq> show_int b"
proof
  assume "show_int a = show_int b"
  with assms have "show_nat (nat b) = CHR ''-'' # show_nat (nat (- a))"
    by (simp add: show_int_def)
  then have "CHR ''-'' \<in> set (show_nat (nat b))" by simp
  then show False using minus_notin_show_nat by blast
qed

lemma show_int_inj: "show_int i = show_int j \<Longrightarrow> i = j"
proof -
  assume eq: "show_int i = show_int j"
  show ?thesis
  proof (cases "i < 0")
    case i: True
    show ?thesis
    proof (cases "j < 0")
      case True
      with i eq have "show_nat (nat (- i)) = show_nat (nat (- j))"
        by (simp add: show_int_def)
      then have "nat (- i) = nat (- j)" by (rule show_nat_inj)
      with i True show ?thesis by simp
    next
      case False
      with i eq show_int_sign [of i j] show ?thesis by simp
    qed
  next
    case i: False
    show ?thesis
    proof (cases "j < 0")
      case True
      with i eq show_int_sign [of j i] show ?thesis by simp
    next
      case False
      with i eq have "show_nat (nat i) = show_nat (nat j)"
        by (simp add: show_int_def)
      then have "nat i = nat j" by (rule show_nat_inj)
      with i False show ?thesis by simp
    qed
  qed
qed

subsection \<open>The trace and the registry under the small steps\<close>

lemma trace_emit [simp]: "trace (emit es w) = trace w @ es"
  by (simp add: emit_def)

lemma tcpConns_emit [simp]: "tcpConns (emit es w) = tcpConns w"
  by (simp add: emit_def)

lemma releases_emit: "releases (emit es w) = releases w + length (filter is_free es)"
  by (simp add: releases_def)

lemma tcpConns_Release:
  "tcpConns (Release conn w) k = (if k = connKey conn then None else tcpConns w k)"
  by (auto simp: Release_def split: option.splits)

lemma trace_Release:
  "trace (Release conn w) =
     (if tcpConns w (connKey conn) = None then trace w
      else trace w @ [FreeConnKeyArg (connKeyArg conn)])"
  by (auto simp: Release_def split: option.splits)

lemma releases_Release:
  "releases (Release conn w) =
     (if tcpConns w (connKey conn) = None then releases w else Suc (releases w))"
  by (simp add: releases_def trace_Release)

lemma created_conn0:
  "NewTCPConnection 7 ''10.0.0.2:80'' ''10.0.0.1:4321'' 3 42 True None
     \<lparr>tcpConns = Map.empty, trace = []\<rparr> = (Inr conn0, w0)"
  by (simp add: NewTCPConnection_def conn0_def w0_def emit_def)

subsection \<open>C7: the three answers of the engine-write helper\<close>

text \<open>
  Claim C7. For a slice that is not empty (an empty one never reaches the engine),
  \<open>tcpWrite\<close> returns the length of the slice and no error when the engine answers
  \<open>ERR_OK\<close>, returns 0 and no error when it answers \<open>ERR_MEM\<close>, and for every other code
  returns 0 and the error "lwip tcp_write failed with error code: " followed by the code in
  decimal. The message keeps the code: no call of \<open>tcpWrite\<close> with another answer of the
  engine returns the same count and error.
\<close>

theorem tcpWrite_results:
  assumes "data \<noteq> []"
  shows "tcpWrite conn data ERR_OK =
           Some ((length data, None),
                 [C_tcp_write (pcb conn) data (of_nat (length data)), C_tcp_output (pcb conn)])
       \<and> tcpWrite conn data ERR_MEM =
           Some ((0, None), [C_tcp_write (pcb conn) data (of_nat (length data))])
       \<and> (ret \<noteq> ERR_OK \<and> ret \<noteq> ERR_MEM \<longrightarrow>
            tcpWrite conn data ret =
              Some ((0, Some (''lwip tcp_write failed with error code: '' @ show_int ret)),
                    [C_tcp_write (pcb conn) data (of_nat (length data))])
            \<and> (\<forall>conn' data' ret'.
                  map_option fst (tcpWrite conn' data' ret') = map_option fst (tcpWrite conn data ret)
                  \<longrightarrow> ret' = ret))"
proof (intro conjI impI allI)
  show "tcpWrite conn data ERR_OK =
           Some ((length data, None),
                 [C_tcp_write (pcb conn) data (of_nat (length data)), C_tcp_output (pcb conn)])"
    using assms by (simp add: tcpWrite_def)
  show "tcpWrite conn data ERR_MEM =
           Some ((0, None), [C_tcp_write (pcb conn) data (of_nat (length data))])"
    using assms by (simp add: tcpWrite_def ERR_OK_def ERR_MEM_def)
next
  assume hard: "ret \<noteq> ERR_OK \<and> ret \<noteq> ERR_MEM"
  then show "tcpWrite conn data ret =
              Some ((0, Some (''lwip tcp_write failed with error code: '' @ show_int ret)),
                    [C_tcp_write (pcb conn) data (of_nat (length data))])"
    using assms by (simp add: tcpWrite_def)
next
  fix conn' data' ret'
  assume hard: "ret \<noteq> ERR_OK \<and> ret \<noteq> ERR_MEM"
    and same: "map_option fst (tcpWrite conn' data' ret') = map_option fst (tcpWrite conn data ret)"
  from hard assms have "map_option fst (tcpWrite conn data ret) =
      Some (0, Some (''lwip tcp_write failed with error code: '' @ show_int ret))"
    by (simp add: tcpWrite_def)
  with same have "show_int ret' = show_int ret"
    using assms by (auto simp: tcpWrite_def split: if_splits)
  then show "ret' = ret" by (rule show_int_inj)
qed

theorem tcpWrite_results_witness:
  "[1, 2, 3 :: byte] \<noteq> []
   \<and> tcpWrite conn0 [1, 2, 3] ERR_OK = Some ((3, None), [C_tcp_write 7 [1, 2, 3] 3, C_tcp_output 7])
   \<and> tcpWrite conn0 [1, 2, 3] ERR_MEM = Some ((0, None), [C_tcp_write 7 [1, 2, 3] 3])
   \<and> (- 6 :: int) \<noteq> ERR_OK \<and> (- 6 :: int) \<noteq> ERR_MEM
   \<and> tcpWrite conn0 [1, 2, 3] (- 6) =
       Some ((0, Some ''lwip tcp_write failed with error code: -6''), [C_tcp_write 7 [1, 2, 3] 3])"
  using tcpWrite_results [of "[1, 2, 3]" conn0 "- 6"]
  by (simp add: conn0_def ERR_OK_def ERR_MEM_def show_int_def show_nat_small digit_char_def)

subsection \<open>What the handler and the engine were told\<close>

lemma received_append: "received (xs @ ys) = received xs @ received ys"
  by (induction xs rule: received.induct) simp_all

lemma acknowledged_append: "acknowledged (xs @ ys) = acknowledged xs @ acknowledged ys"
  by (induction xs rule: acknowledged.induct) simp_all

lemma u16_of_nat: "unat (of_nat n :: 16 word) = n mod 65536"
  by (simp add: unat_of_nat)

lemma u16_of_length: "n < 65536 \<Longrightarrow> unat (of_nat n :: 16 word) = n"
  by (simp add: u16_of_nat)

lemma state_messages_differ:
  "''connection '' @ a @ ''->'' @ b @ '' was closed by remote''
     \<noteq> ''connection '' @ a' @ ''->'' @ b' @ '' is aborting''"
proof
  assume "''connection '' @ a @ ''->'' @ b @ '' was closed by remote''
     = ''connection '' @ a' @ ''->'' @ b' @ '' is aborting''"
  then have "last (''connection '' @ a @ ''->'' @ b @ '' was closed by remote'')
     = last (''connection '' @ a' @ ''->'' @ b' @ '' is aborting'')" by (rule arg_cong)
  then show False by simp
qed

subsection \<open>C8: Receive\<close>

text \<open>
  Claim C8, as stated, fails in one point: the count given to \<open>tcp_recved\<close> is
  \<open>C.u16_t(len(data))\<close>, not the buffer's length. For a buffer of 65536 bytes the handler
  gets all the bytes and the engine is told that 0 bytes were consumed.
\<close>

theorem Receive_large_buffer_counterexample:
  "\<not> closing conn0 \<and> \<not> aborting conn0
   \<and> length (replicate 65536 (0 :: byte)) = 65536
   \<and> Receive (replicate 65536 0) None conn0 w0 =
       (None, emit [LwipUnlock, H_DidReceive (replicate 65536 0), LwipLock, C_tcp_recved 7 0] w0)
   \<and> unat (0 :: 16 word) \<noteq> length (replicate 65536 (0 :: byte))"
  by (simp add: Receive_def conn0_def)

text \<open>
  Claim C8, amended. \<open>Receive\<close> on a closing connection returns the error "... was closed
  by remote", on an aborting one the error "... is aborting" (two messages that never
  coincide), and in both cases leaves the world as it was: the handler is not called.
  Otherwise the handler's \<open>DidReceive\<close> gets the buffer with the engine lock released, and
  \<open>tcp_recved\<close> is called exactly when the handler returned no error, with the buffer's
  length converted to a 16-bit count: the length modulo 65536, which is the length itself
  for every buffer under 65536 bytes. A handler error comes back as "write proxy failed:
  ..." and neither the connection's flags nor the registry change.
\<close>

theorem Receive_behaviour:
  "(closing conn \<longrightarrow>
      Receive data hres conn w =
        (Some (''connection '' @ localAddr conn @ ''->'' @ remoteAddr conn @ '' was closed by remote''), w))
   \<and> (\<not> closing conn \<and> aborting conn \<longrightarrow>
      Receive data hres conn w =
        (Some (''connection '' @ localAddr conn @ ''->'' @ remoteAddr conn @ '' is aborting''), w))
   \<and> (\<not> closing conn \<and> \<not> aborting conn \<longrightarrow>
        Receive data None conn w =
          (None, emit [LwipUnlock, H_DidReceive data, LwipLock,
                       C_tcp_recved (pcb conn) (of_nat (length data))] w)
      \<and> Receive data (Some err) conn w =
          (Some (''write proxy failed: '' @ err), emit [LwipUnlock, H_DidReceive data, LwipLock] w)
      \<and> acknowledged (trace (snd (Receive data hres conn w))) =
          acknowledged (trace w) @ (if hres = None then [of_nat (length data)] else []))
   \<and> unat (of_nat (length data) :: 16 word) = length data mod 65536
   \<and> (length data < 65536 \<longrightarrow> unat (of_nat (length data) :: 16 word) = length data)
   \<and> ''connection '' @ localAddr conn @ ''->'' @ remoteAddr conn @ '' was closed by remote''
       \<noteq> ''connection '' @ localAddr conn @ ''->'' @ remoteAddr conn @ '' is aborting''
   \<and> fst (step (DoReceive data hres) (conn, w)) = conn
   \<and> tcpConns (snd (Receive data hres conn w)) = tcpConns w"
  by (auto simp: Receive_def emit_def acknowledged_append u16_of_length u16_of_nat
      state_messages_differ split: option.splits)

theorem Receive_behaviour_witness:
  "closing (snd (Close conn0))
   \<and> Receive [1, 2] None (snd (Close conn0)) w0 =
       (Some ''connection 10.0.0.1:4321->10.0.0.2:80 was closed by remote'', w0)
   \<and> \<not> closing (fst (Abort conn0 w0)) \<and> aborting (fst (Abort conn0 w0))
   \<and> Receive [1, 2] None (fst (Abort conn0 w0)) w0 =
       (Some ''connection 10.0.0.1:4321->10.0.0.2:80 is aborting'', w0)
   \<and> \<not> closing conn0 \<and> \<not> aborting conn0
   \<and> Receive [1, 2] None conn0 w0 =
       (None, emit [LwipUnlock, H_DidReceive [1, 2], LwipLock, C_tcp_recved 7 2] w0)
   \<and> Receive [1, 2] (Some ''EOF'') conn0 w0 =
       (Some ''write proxy failed: EOF'', emit [LwipUnlock, H_DidReceive [1, 2], LwipLock] w0)
   \<and> length [1, 2 :: byte] < 65536 \<and> unat (of_nat (length [1, 2 :: byte]) :: 16 word) = length [1, 2 :: byte]"
  using Receive_behaviour [of "snd (Close conn0)" "[1, 2]" None w0 "''EOF''"]
    Receive_behaviour [of "fst (Abort conn0 w0)" "[1, 2]" None w0 "''EOF''"]
    Receive_behaviour [of conn0 "[1, 2]" None w0 "''EOF''"]
  by (simp add: conn0_def Close_def Abort_def)

subsection \<open>C5: three data callbacks of 100, 50 and 0 bytes\<close>

text \<open>
  Claim C5, as stated, fails: \<open>Receive\<close> has no test for an empty buffer. After the three
  callbacks the handler was notified three times, the last time with the empty buffer, and
  the engine got three acknowledgments, the last of 0 bytes.
\<close>

theorem three_callbacks_counterexample:
  "\<not> closing conn0 \<and> \<not> aborting conn0
   \<and> received (trace (snd (run [DoReceive (replicate 100 0) None, DoReceive (replicate 50 0) None,
                                  DoReceive [] None] (conn0, \<lparr>tcpConns = tcpConns w0, trace = []\<rparr>))))
       = [replicate 100 0, replicate 50 0, []]
   \<and> length (received (trace (snd (run [DoReceive (replicate 100 0) None, DoReceive (replicate 50 0) None,
                                  DoReceive [] None] (conn0, \<lparr>tcpConns = tcpConns w0, trace = []\<rparr>))))) \<noteq> 2
   \<and> acknowledged (trace (snd (run [DoReceive (replicate 100 0) None, DoReceive (replicate 50 0) None,
                                  DoReceive [] None] (conn0, \<lparr>tcpConns = tcpConns w0, trace = []\<rparr>))))
       = [100, 50, 0]"
  by (simp add: conn0_def Receive_def emit_def)

text \<open>
  Claim C5, amended. On a connection that is neither closing nor aborting, with a handler
  that always succeeds, three data callbacks of 100, 50 and 0 bytes give the handler three
  notifications, one per callback and in order (150 bytes in all), and give the engine one
  acknowledgment per callback: 100, 50 and 0.
\<close>

theorem three_callbacks:
  assumes "\<not> closing conn" and "\<not> aborting conn"
    and "length d1 = 100" and "length d2 = 50" and "length d3 = 0"
  shows "received (trace (snd (run [DoReceive d1 None, DoReceive d2 None, DoReceive d3 None] (conn, w))))
           = received (trace w) @ [d1, d2, d3]
       \<and> acknowledged (trace (snd (run [DoReceive d1 None, DoReceive d2 None, DoReceive d3 None] (conn, w))))
           = acknowledged (trace w) @ [100, 50, 0]
       \<and> length (concat [d1, d2, d3]) = 150"
  using assms by (simp add: Receive_def received_append acknowledged_append)

theorem three_callbacks_witness:
  "\<not> closing conn0 \<and> \<not> aborting conn0
   \<and> length (replicate 100 (1::byte)) = 100 \<and> length (replicate 50 (2::byte)) = 50 \<and> length ([] :: byte list) = 0
   \<and> received (trace (snd (run [DoReceive (replicate 100 1) None, DoReceive (replicate 50 2) None,
                                  DoReceive [] None] (conn0, w0))))
       = [replicate 100 1, replicate 50 2, []]
   \<and> acknowledged (trace (snd (run [DoReceive (replicate 100 1) None, DoReceive (replicate 50 2) None,
                                  DoReceive [] None] (conn0, w0))))
       = [100, 50, 0]"
  using three_callbacks [of conn0 "replicate 100 1" "replicate 50 2" "[]" w0]
  by (simp add: conn0_def w0_def)

subsection \<open>C10: creation when the handler refuses the connection\<close>

text \<open>
  Claim C10. With a handler registered, when the handler's \<open>Connect\<close> returns an error,
  \<open>NewTCPConnection\<close> returns that error; the registry then holds the connection under its
  key, the callbacks are installed, and no argument slot was freed.
\<close>

theorem NewTCPConnection_connect_error:
  assumes "registered" and "connect = Some err"
  shows "fst (NewTCPConnection p pcb_local pcb_remote arg key registered connect w) = Inl err
       \<and> tcpConns (snd (NewTCPConnection p pcb_local pcb_remote arg key registered connect w)) key = Some p
       \<and> trace (snd (NewTCPConnection p pcb_local pcb_remote arg key registered connect w)) =
           trace w @ [NewConnKeyArg arg, SetConnKeyVal arg key, C_tcp_arg p (Some arg),
                      SetTCPRecvCallback p, SetTCPSentCallback p, SetTCPErrCallback p,
                      SetTCPPollCallback p, LwipUnlock, H_Connect pcb_local, LwipLock]
       \<and> releases (snd (NewTCPConnection p pcb_local pcb_remote arg key registered connect w)) = releases w"
  using assms by (simp add: NewTCPConnection_def releases_def)

theorem NewTCPConnection_connect_error_witness:
  "True \<and> Some ''dial failed'' = Some ''dial failed''
   \<and> fst (NewTCPConnection 7 ''10.0.0.2:80'' ''10.0.0.1:4321'' 3 42 True (Some ''dial failed'')
        \<lparr>tcpConns = Map.empty, trace = []\<rparr>) = Inl ''dial failed''
   \<and> tcpConns (snd (NewTCPConnection 7 ''10.0.0.2:80'' ''10.0.0.1:4321'' 3 42 True (Some ''dial failed'')
        \<lparr>tcpConns = Map.empty, trace = []\<rparr>)) 42 = Some 7
   \<and> releases (snd (NewTCPConnection 7 ''10.0.0.2:80'' ''10.0.0.1:4321'' 3 42 True (Some ''dial failed'')
        \<lparr>tcpConns = Map.empty, trace = []\<rparr>)) = 0"
  using NewTCPConnection_connect_error [of True "Some ''dial failed''" "''dial failed''" 7
      "''10.0.0.2:80''" "''10.0.0.1:4321''" 3 42 "\<lparr>tcpConns = Map.empty, trace = []\<rparr>"]
  by (simp add: releases_def)


subsection \<open>The state evaluation, case by case\<close>

lemma CheckState_open:
  "\<not> localClosed conn \<Longrightarrow> CheckState ret conn w = (LWIP_ERR_OK, emit [Broadcast] w)"
  by (simp add: CheckState_def)

lemma CheckState_localClosed:
  "localClosed conn \<Longrightarrow>
   CheckState ret conn w =
     (if aborting conn then (LWIP_ERR_ABRT, abortInternal conn (snd (closeInternal ret conn w)))
      else (LWIP_ERR_OK, snd (closeInternal ret conn w)))"
  by (simp add: CheckState_def)

lemma trace_closeInternal:
  "trace (snd (closeInternal ret conn w)) =
     trace w @ [C_tcp_arg (pcb conn) None, C_tcp_recv_nil (pcb conn), C_tcp_sent_nil (pcb conn),
                C_tcp_err_nil (pcb conn), C_tcp_poll_nil (pcb conn)]
             @ (if tcpConns w (connKey conn) = None then [] else [FreeConnKeyArg (connKeyArg conn)])
             @ [Cancel, C_tcp_close (pcb conn)]"
  by (simp add: closeInternal_def Let_def trace_Release)

lemma tcpConns_closeInternal:
  "tcpConns (snd (closeInternal ret conn w)) k = (if k = connKey conn then None else tcpConns w k)"
  by (simp add: closeInternal_def Let_def tcpConns_Release)

lemma releases_closeInternal:
  "releases (snd (closeInternal ret conn w)) =
     (if tcpConns w (connKey conn) = None then releases w else Suc (releases w))"
  by (simp add: releases_def trace_closeInternal)

lemma trace_abortInternal:
  "trace (abortInternal conn w) =
     trace w @ (if tcpConns w (connKey conn) = None then [] else [FreeConnKeyArg (connKeyArg conn)])
             @ [C_tcp_abort (pcb conn)]"
  by (simp add: abortInternal_def trace_Release)

lemma tcpConns_abortInternal:
  "tcpConns (abortInternal conn w) k = (if k = connKey conn then None else tcpConns w k)"
  by (simp add: abortInternal_def tcpConns_Release)

lemma releases_abortInternal:
  "releases (abortInternal conn w) =
     (if tcpConns w (connKey conn) = None then releases w else Suc (releases w))"
  by (simp add: releases_def trace_abortInternal)

lemma tcpConns_Err:
  "tcpConns (Err conn w) k = (if k = connKey conn then None else tcpConns w k)"
  by (simp add: Err_def tcpConns_Release)

lemma releases_Err:
  "releases (Err conn w) =
     (if tcpConns w (connKey conn) = None then releases w else Suc (releases w))"
  by (simp add: releases_def Err_def trace_Release)

subsection \<open>C1: the state evaluation of an aborting connection\<close>

text \<open>
  Claim C1, as stated, fails: \<open>CheckState\<close> returns at its first test while \<open>localClosed\<close>
  is not set. After \<open>Abort()\<close> on the fresh connection, the poll and the sent callbacks
  return "ok", the engine's abort is not called and the registry keeps the entry.
\<close>

theorem abort_before_local_close_counterexample:
  "aborting (fst (Abort conn0 w0)) \<and> \<not> localClosed (fst (Abort conn0 w0))
   \<and> Poll ERR_OK (fst (Abort conn0 w0)) (snd (Abort conn0 w0)) =
       (LWIP_ERR_OK, emit [Broadcast, Broadcast] w0)
   \<and> fst (Sent 100 ERR_OK (fst (Abort conn0 w0)) (snd (Abort conn0 w0))) \<noteq> LWIP_ERR_ABRT
   \<and> C_tcp_abort 7 \<notin> set (trace (snd (Poll ERR_OK (fst (Abort conn0 w0)) (snd (Abort conn0 w0)))))
   \<and> tcpConns (snd (Poll ERR_OK (fst (Abort conn0 w0)) (snd (Abort conn0 w0)))) 42 = Some 7"
  by (simp add: Abort_def Poll_def Sent_def CheckState_def conn0_def w0_def emit_def)

text \<open>
  Claim C1, amended. For a connection whose \<open>aborting\<close> flag is set, a state evaluation
  with \<open>localClosed\<close> set as well returns "aborted", its last engine call is \<open>tcp_abort\<close> on
  the connection's handle, and the registry has no entry for the key afterwards. That is
  always so when it is reached from the local-close callback, which sets \<open>localClosed\<close>
  first. While neither \<open>localClosed\<close> nor \<open>closing\<close> is set, the evaluation reached from the
  poll or the sent callback only broadcasts the write gate and returns "ok".
\<close>

theorem CheckState_aborting:
  assumes "aborting conn"
  shows "(localClosed conn \<longrightarrow>
            fst (CheckState ret conn w) = LWIP_ERR_ABRT
          \<and> fst (Poll ret conn w) = LWIP_ERR_ABRT
          \<and> fst (Sent len ret conn w) = LWIP_ERR_ABRT
          \<and> last (trace (snd (CheckState ret conn w))) = C_tcp_abort (pcb conn)
          \<and> last (trace (snd (Poll ret conn w))) = C_tcp_abort (pcb conn)
          \<and> last (trace (snd (Sent len ret conn w))) = C_tcp_abort (pcb conn)
          \<and> tcpConns (snd (CheckState ret conn w)) (connKey conn) = None
          \<and> tcpConns (snd (Poll ret conn w)) (connKey conn) = None
          \<and> tcpConns (snd (Sent len ret conn w)) (connKey conn) = None)
       \<and> fst (LocalDidClose ret conn w) = LWIP_ERR_ABRT
       \<and> last (trace (snd (snd (LocalDidClose ret conn w)))) = C_tcp_abort (pcb conn)
       \<and> tcpConns (snd (snd (LocalDidClose ret conn w))) (connKey conn) = None
       \<and> (\<not> localClosed conn \<and> \<not> closing conn \<longrightarrow>
            CheckState ret conn w = (LWIP_ERR_OK, emit [Broadcast] w)
          \<and> Poll ret conn w = (LWIP_ERR_OK, emit [Broadcast] w)
          \<and> Sent len ret conn w = (LWIP_ERR_OK, emit [H_DidSend len, Broadcast] w))"
  using assms
  by (auto simp: Poll_def Sent_def LocalDidClose_def setLocalClosed_def CheckState_open
      CheckState_localClosed trace_abortInternal tcpConns_abortInternal emit_def)

theorem CheckState_aborting_witness:
  "aborting (conn0\<lparr>localClosed := True, aborting := True\<rparr>)
   \<and> localClosed (conn0\<lparr>localClosed := True, aborting := True\<rparr>)
   \<and> fst (CheckState ERR_OK (conn0\<lparr>localClosed := True, aborting := True\<rparr>) w0) = LWIP_ERR_ABRT
   \<and> last (trace (snd (CheckState ERR_OK (conn0\<lparr>localClosed := True, aborting := True\<rparr>) w0))) = C_tcp_abort 7
   \<and> tcpConns (snd (CheckState ERR_OK (conn0\<lparr>localClosed := True, aborting := True\<rparr>) w0)) 42 = None
   \<and> aborting (conn0\<lparr>aborting := True\<rparr>) \<and> \<not> localClosed (conn0\<lparr>aborting := True\<rparr>)
   \<and> \<not> closing (conn0\<lparr>aborting := True\<rparr>)
   \<and> CheckState ERR_OK (conn0\<lparr>aborting := True\<rparr>) w0 = (LWIP_ERR_OK, emit [Broadcast] w0)
   \<and> fst (LocalDidClose ERR_OK (conn0\<lparr>aborting := True\<rparr>) w0) = LWIP_ERR_ABRT"
  using CheckState_aborting [of "conn0\<lparr>localClosed := True, aborting := True\<rparr>" ERR_OK w0 0]
    CheckState_aborting [of "conn0\<lparr>aborting := True\<rparr>" ERR_OK w0 0]
  by (simp add: conn0_def CheckState_localClosed CheckState_open trace_abortInternal
      tcpConns_abortInternal)


subsection \<open>While \<open>localClosed\<close> is not set\<close>

text \<open>
  As long as no local-close notification arrives, no action on the connection sets
  \<open>localClosed\<close> or makes the engine close or abort the handle, and only the engine's
  error callback touches the registry.
\<close>

lemma step_open:
  assumes "\<not> localClosed conn" and "\<not> is_local_close a"
  shows "\<not> localClosed (fst (step a (conn, w)))
       \<and> filter is_teardown (trace (snd (step a (conn, w)))) = filter is_teardown (trace w)
       \<and> (a \<noteq> DoErr \<longrightarrow> tcpConns (snd (step a (conn, w))) = tcpConns w
                         \<and> releases (snd (step a (conn, w))) = releases w)"
  using assms
  by (cases a)
     (auto simp: Sent_def Poll_def CheckState_open Err_def Receive_def Close_def Abort_def
        trace_Release releases_def Let_def split: option.splits)

lemma run_open:
  assumes "\<not> localClosed conn" and "\<forall>a \<in> set as. \<not> is_local_close a"
  shows "\<not> localClosed (fst (run as (conn, w)))
       \<and> filter is_teardown (trace (snd (run as (conn, w)))) = filter is_teardown (trace w)
       \<and> (DoErr \<notin> set as \<longrightarrow> tcpConns (snd (run as (conn, w))) = tcpConns w
                         \<and> releases (snd (run as (conn, w))) = releases w)"
  using assms
proof (induction as arbitrary: conn w)
  case Nil
  then show ?case by simp
next
  case (Cons a as)
  obtain conn' w' where s: "step a (conn, w) = (conn', w')" by (cases "step a (conn, w)")
  from Cons.prems have a: "\<not> is_local_close a" and as: "\<forall>a \<in> set as. \<not> is_local_close a"
    by simp_all
  from step_open [OF Cons.prems(1) a, of w] s
  have st: "\<not> localClosed conn'"
    "filter is_teardown (trace w') = filter is_teardown (trace w)"
    "a \<noteq> DoErr \<longrightarrow> tcpConns w' = tcpConns w \<and> releases w' = releases w"
    by simp_all
  from Cons.IH [OF st(1) as, of w'] st s show ?case by auto
qed

text \<open>The \<open>closing\<close> flag has no part in the state evaluation.\<close>

lemma Release_closing: "Release (conn\<lparr>closing := b\<rparr>) w = Release conn w"
  by (simp add: Release_def split: option.splits)

lemma closeInternal_closing: "closeInternal ret (conn\<lparr>closing := b\<rparr>) w = closeInternal ret conn w"
  by (simp add: closeInternal_def Release_closing)

lemma abortInternal_closing: "abortInternal (conn\<lparr>closing := b\<rparr>) w = abortInternal conn w"
  by (simp add: abortInternal_def Release_closing)

lemma CheckState_closing: "CheckState ret (conn\<lparr>closing := b\<rparr>) w = CheckState ret conn w"
  by (simp add: CheckState_def Let_def closeInternal_closing abortInternal_closing)

subsection \<open>C2: a close request without a local-close notification\<close>

text \<open>
  Claim C2 at a failing input. After \<open>Close()\<close> on the fresh connection, a poll, a sent and
  another poll callback only broadcast the write gate: \<open>closing\<close> is set, \<open>localClosed\<close> is
  not, \<open>tcp_close\<close> is not called and the registry keeps the entry. The test of
  \<open>isClosing()\<close> in \<open>CheckState\<close> stands behind the return on \<open>!isLocalClosed()\<close> and is
  never reached with \<open>localClosed\<close> unset.
\<close>

theorem close_request_alone_is_ignored:
  "closing (fst (run [DoClose, DoPoll ERR_OK, DoSent 200 ERR_OK, DoPoll ERR_OK] (conn0, w0)))
   \<and> \<not> localClosed (fst (run [DoClose, DoPoll ERR_OK, DoSent 200 ERR_OK, DoPoll ERR_OK] (conn0, w0)))
   \<and> trace (snd (run [DoClose, DoPoll ERR_OK, DoSent 200 ERR_OK, DoPoll ERR_OK] (conn0, w0)))
       = trace w0 @ [Broadcast, H_DidSend 200, Broadcast, Broadcast]
   \<and> C_tcp_close 7 \<notin> set (trace (snd (run [DoClose, DoPoll ERR_OK, DoSent 200 ERR_OK, DoPoll ERR_OK] (conn0, w0))))
   \<and> tcpConns (snd (run [DoClose, DoPoll ERR_OK, DoSent 200 ERR_OK, DoPoll ERR_OK] (conn0, w0))) 42 = Some 7"
  by (simp add: Close_def Poll_def Sent_def CheckState_def conn0_def w0_def emit_def)

subsection \<open>The registry entry is released once\<close>

lemma connKey_step: "connKey (fst (step a (conn, w))) = connKey conn"
  by (cases a) (simp_all add: LocalDidClose_def setLocalClosed_def Close_def Abort_def
      split: prod.splits)

lemma connKey_run: "connKey (fst (run as (conn, w))) = connKey conn"
proof (induction as arbitrary: conn w)
  case Nil
  then show ?case by simp
next
  case (Cons a as)
  obtain conn' w' where s: "step a (conn, w) = (conn', w')" by (cases "step a (conn, w)")
  with connKey_step [of a conn w] have "connKey conn' = connKey conn" by simp
  with Cons.IH [of conn' w'] s show ?case by simp
qed

lemma releases_CheckState:
  "releases (snd (CheckState ret conn w)) =
     (if localClosed conn \<and> tcpConns w (connKey conn) \<noteq> None then Suc (releases w) else releases w)"
  by (simp add: CheckState_def Let_def releases_abortInternal releases_closeInternal
      tcpConns_closeInternal releases_emit)

lemma tcpConns_CheckState:
  "tcpConns (snd (CheckState ret conn w)) k =
     (if localClosed conn \<and> k = connKey conn then None else tcpConns w k)"
  by (simp add: CheckState_def Let_def tcpConns_abortInternal tcpConns_closeInternal)

lemma once_CheckState:
  "once (connKey conn) w \<Longrightarrow> once (connKey conn) (snd (CheckState ret conn w))"
  by (simp add: once_def releases_CheckState tcpConns_CheckState)

lemma once_step:
  assumes "once (connKey conn) w"
  shows "once (connKey conn) (snd (step a (conn, w)))"
proof (cases a)
  case (DoSent len ret)
  have "once (connKey conn) (emit [H_DidSend len] w)"
    using assms by (simp add: once_def releases_emit)
  then show ?thesis using DoSent by (simp add: Sent_def once_CheckState)
next
  case (DoPoll ret)
  then show ?thesis using assms by (simp add: Poll_def once_CheckState)
next
  case (DoLocalDidClose ret)
  have "once (connKey (conn\<lparr>localClosed := True\<rparr>)) (emit [Broadcast] (emit [H_LocalDidClose] w))"
    using assms by (simp add: once_def releases_emit)
  from once_CheckState [OF this, of ret] show ?thesis using DoLocalDidClose
    by (simp add: LocalDidClose_def setLocalClosed_def case_prod_beta Let_def)
next
  case DoErr
  then show ?thesis using assms by (simp add: once_def releases_Err tcpConns_Err)
next
  case (DoReceive data hres)
  then show ?thesis using assms
    by (simp add: once_def Receive_def Let_def releases_emit split: option.splits)
next
  case DoClose
  then show ?thesis using assms by simp
next
  case DoAbort
  then show ?thesis using assms by (simp add: Abort_def once_def releases_emit)
qed

lemma once_run:
  assumes "once (connKey conn) w"
  shows "once (connKey conn) (snd (run as (conn, w)))"
  using assms
proof (induction as arbitrary: conn w)
  case Nil
  then show ?case by simp
next
  case (Cons a as)
  obtain conn' w' where s: "step a (conn, w) = (conn', w')" by (cases "step a (conn, w)")
  with connKey_step [of a conn w] have k: "connKey conn' = connKey conn" by simp
  from once_step [OF Cons.prems, of a] s k have "once (connKey conn') w'" by simp
  from Cons.IH [OF this] s k show ?case by simp
qed

subsection \<open>Every release path leaves one release\<close>

text \<open>
  From a state where the registry holds the connection and no slot was freed, whatever the
  engine and the handler's side do to the connection, the entry is released at most once,
  and it was released exactly when the registry has no entry for the key. Each of
  \<open>closeInternal\<close>, \<open>abortInternal\<close> and \<open>Err\<close> leaves the registry without the entry and
  makes that one release; a second \<open>Release\<close> does nothing.
\<close>

lemma release_at_most_once:
  assumes "tcpConns w (connKey conn) \<noteq> None" and "releases w = 0"
  shows "releases (snd (run as (conn, w))) \<le> 1
       \<and> (releases (snd (run as (conn, w))) = 1) = (tcpConns (snd (run as (conn, w))) (connKey conn) = None)
       \<and> tcpConns (snd (closeInternal ret conn w)) (connKey conn) = None
       \<and> releases (snd (closeInternal ret conn w)) = 1
       \<and> tcpConns (abortInternal conn w) (connKey conn) = None
       \<and> releases (abortInternal conn w) = 1
       \<and> tcpConns (Err conn w) (connKey conn) = None
       \<and> releases (Err conn w) = 1
       \<and> Release conn (Release conn w) = Release conn w"
proof -
  from assms have "once (connKey conn) w" by (simp add: once_def)
  then have "once (connKey conn) (snd (run as (conn, w)))" by (rule once_run)
  then have "releases (snd (run as (conn, w))) \<le> 1"
    and "(releases (snd (run as (conn, w))) = 1) = (tcpConns (snd (run as (conn, w))) (connKey conn) = None)"
    by (simp_all add: once_def split: if_splits)
  moreover have "Release conn (Release conn w) = Release conn w"
    by (simp add: Release_def split: option.splits)
  ultimately show ?thesis
    using assms
    by (simp add: tcpConns_closeInternal releases_closeInternal tcpConns_abortInternal
        releases_abortInternal tcpConns_Err releases_Err)
qed

lemma release_at_most_once_example:
  "tcpConns w0 (connKey conn0) \<noteq> None \<and> releases w0 = 0
   \<and> releases (snd (run [DoAbort, DoLocalDidClose ERR_OK, DoErr, DoPoll ERR_OK] (conn0, w0))) = 1
   \<and> tcpConns (snd (run [DoAbort, DoLocalDidClose ERR_OK, DoErr, DoPoll ERR_OK] (conn0, w0))) (connKey conn0) = None
   \<and> releases (snd (run [DoClose, DoAbort, DoPoll ERR_OK] (conn0, w0))) = 0
   \<and> tcpConns (snd (run [DoClose, DoAbort, DoPoll ERR_OK] (conn0, w0))) (connKey conn0) = Some 7"
  using release_at_most_once [of w0 conn0 "[DoAbort, DoLocalDidClose ERR_OK, DoErr, DoPoll ERR_OK]" ERR_OK]
    release_at_most_once [of w0 conn0 "[DoClose, DoAbort, DoPoll ERR_OK]" ERR_OK]
  by (simp add: Abort_def LocalDidClose_def setLocalClosed_def CheckState_def closeInternal_def
      abortInternal_def Release_def Let_def ERR_OK_def conn0_def w0_def emit_def Err_def
      Poll_def Close_def releases_def)


subsection \<open>C3: one release, and the engine's close and abort\<close>

text \<open>
  Claim C3 at a failing input. \<open>Abort()\<close> is requested on the fresh connection and then
  the local-close notification arrives. One state evaluation, with \<open>localClosed\<close> and
  \<open>aborting\<close> both set, runs \<open>closeInternal\<close> and then \<open>abortInternal\<close>: the registry entry
  is released once, and the engine gets \<open>tcp_close\<close> and then \<open>tcp_abort\<close> on the same
  handle.
\<close>

theorem close_then_abort_on_one_handle:
  "localClosed (fst (run [DoAbort, DoLocalDidClose ERR_OK] (conn0, w0)))
   \<and> aborting (fst (run [DoAbort, DoLocalDidClose ERR_OK] (conn0, w0)))
   \<and> trace (snd (run [DoAbort, DoLocalDidClose ERR_OK] (conn0, w0))) =
       trace w0 @ [Broadcast, H_LocalDidClose, Broadcast,
                   C_tcp_arg 7 None, C_tcp_recv_nil 7, C_tcp_sent_nil 7, C_tcp_err_nil 7,
                   C_tcp_poll_nil 7, FreeConnKeyArg 3, Cancel, C_tcp_close 7, C_tcp_abort 7]
   \<and> filter is_teardown (trace (snd (run [DoAbort, DoLocalDidClose ERR_OK] (conn0, w0))))
       = [C_tcp_close 7, C_tcp_abort 7]"
  by (simp add: Abort_def LocalDidClose_def setLocalClosed_def CheckState_def closeInternal_def
      abortInternal_def Release_def Let_def ERR_OK_def conn0_def w0_def emit_def)

subsection \<open>The calls of \<open>tcpWrite\<close> that \<open>Write\<close> makes\<close>

lemma tcpWrite_None: "tcpWrite conn data ret = None \<longleftrightarrow> data = []"
  by (simp add: tcpWrite_def)

lemma tcpWrite_engine:
  "tcpWrite conn data ret = Some (r, evs) \<Longrightarrow>
   \<exists>rest. evs = C_tcp_write (pcb conn) data (of_nat (length data)) # rest"
  by (auto simp: tcpWrite_def split: if_splits)

lemma handed_Some: "handed e = Some d \<Longrightarrow> \<exists>p n. e = C_tcp_write p d n"
  by (cases e) simp_all

lemma sound_call_engine:
  assumes "sound_call c"
  shows "\<exists>p n rest. engine c = C_tcp_write p (chunk c) n # rest"
proof (cases "engine c")
  case Nil
  with assms show ?thesis by (simp add: sound_call_def)
next
  case (Cons e rest)
  with assms have "handed e = Some (chunk c)" by (simp add: sound_call_def)
  from handed_Some [OF this] Cons show ?thesis by auto
qed

lemma Write_loop_calls:
  "outcome (Write_loop t ts data done0) \<noteq> Panics
   \<and> list_all sound_call (calls (Write_loop t ts data done0))"
proof (induction t ts data done0 rule: Write_loop.induct)
  case (1 t ts data totalWritten)
  note unf = Write_loop.simps [of t ts data totalWritten]
  define toWrite where "toWrite = (if length data > snd_buf t then snd_buf t else length data)"
  show ?case
  proof (cases "data = [] \<or> localClosed (seen t) \<or> aborting (seen t)")
    case True
    then show ?thesis unfolding unf by auto
  next
    case go: False
    show ?thesis
    proof (cases "toWrite > 0")
      case False
      show ?thesis
      proof (cases ts)
        case Nil
        with go False show ?thesis
          unfolding unf by (simp add: toWrite_def)
      next
        case (Cons t' ts')
        with go False "1.IH"(2) [of toWrite t' ts'] show ?thesis
          unfolding unf by (simp add: toWrite_def)
      qed
    next
      case True
      then have ne: "take toWrite data \<noteq> []" using go by (auto simp: toWrite_def)
      have le: "length (take toWrite data) \<le> snd_buf t" by (simp add: toWrite_def)
      from ne obtain written err evs
        where tw: "tcpWrite (seen t) (take toWrite data) (tcp_write_ret t) = Some ((written, err), evs)"
        by (cases "tcpWrite (seen t) (take toWrite data) (tcp_write_ret t)")
           (auto simp: tcpWrite_None)
      from tcpWrite_engine [OF tw] obtain rest
        where evs: "evs = C_tcp_write (pcb (seen t)) (take toWrite data) (of_nat (length (take toWrite data))) # rest"
        by blast
      define call where "call = \<lparr>window = snd_buf t, chunk = take toWrite data,
                              answer = tcp_write_ret t, engine = evs\<rparr>"
      have sc: "sound_call call" using ne le evs by (simp add: sound_call_def call_def)
      show ?thesis
      proof (cases err)
        case (Some e)
        with go True tw sc show ?thesis
          unfolding unf by (simp add: toWrite_def [symmetric] call_def)
      next
        case None
        show ?thesis
        proof (cases "drop written data = []")
          case True
          with go \<open>toWrite > 0\<close> tw sc None show ?thesis
            unfolding unf by (simp add: toWrite_def [symmetric] call_def)
        next
          case more: False
          show ?thesis
          proof (cases ts)
            case Nil
            with go \<open>toWrite > 0\<close> tw sc None more show ?thesis
              unfolding unf by (simp add: toWrite_def [symmetric] call_def)
          next
            case (Cons t' ts')
            from "1.IH"(1) [of toWrite "((written, err), evs)" "(written, err)" evs written err call t' ts']
              go \<open>toWrite > 0\<close> tw None more Cons
            have "outcome (Write_loop t' ts' (drop written data) (totalWritten + written)) \<noteq> Panics
                \<and> list_all sound_call (calls (Write_loop t' ts' (drop written data) (totalWritten + written)))"
              by (simp add: toWrite_def call_def)
            with go \<open>toWrite > 0\<close> tw sc None more Cons show ?thesis
              unfolding unf by (simp add: toWrite_def [symmetric] call_def Let_def)
          qed
        qed
      qed
    qed
  qed
qed

subsection \<open>C9: \<open>tcpWrite\<close> never gets an empty slice\<close>

text \<open>
  Claim C9. Whatever the turns of the loop observe, and whether or not the write gate is
  free, \<open>Write\<close> does not panic, and every call of \<open>tcpWrite\<close> it makes passes a slice that
  is not empty and not longer than the \<open>snd_buf\<close> read in the same lock window; that slice
  is what the engine's \<open>tcp_write\<close> is handed, so \<open>data[0]\<close> exists.
\<close>

theorem Write_never_passes_empty_chunk:
  "outcome (Write held t ts data) \<noteq> Panics
   \<and> (\<forall>c \<in> set (calls (Write held t ts data)).
         chunk c \<noteq> [] \<and> length (chunk c) \<le> window c
         \<and> (\<exists>p n rest. engine c = C_tcp_write p (chunk c) n # rest))"
proof -
  have "list_all sound_call (calls (Write held t ts data))"
    and "outcome (Write held t ts data) \<noteq> Panics"
    using Write_loop_calls [of t ts data 0] by (simp_all add: Write_def)
  then show ?thesis
    using sound_call_engine by (auto simp: list_all_iff sound_call_def)
qed

theorem Write_never_passes_empty_chunk_witness:
  "\<lparr>window = 1, chunk = [10], answer = ERR_OK, engine = [C_tcp_write 7 [10] 1, C_tcp_output 7]\<rparr>
      \<in> set (calls (Write False turn1 [turn2] [10, 20]))
   \<and> chunk \<lparr>window = 1, chunk = [10 :: byte], answer = ERR_OK, engine = [C_tcp_write 7 [10] 1, C_tcp_output 7]\<rparr> \<noteq> []
   \<and> length (chunk \<lparr>window = 1, chunk = [10 :: byte], answer = ERR_OK, engine = [C_tcp_write 7 [10] 1, C_tcp_output 7]\<rparr>)
       \<le> window \<lparr>window = 1, chunk = [10 :: byte], answer = ERR_OK, engine = [C_tcp_write 7 [10] 1, C_tcp_output 7]\<rparr>
   \<and> outcome (Write False turn1 [turn2] [10, 20]) \<noteq> Panics"
  using Write_never_passes_empty_chunk [of False turn1 "[turn2]" "[10, 20]"]
  by (simp add: Write_def Write_loop.simps turn1_def turn2_def conn0_def tcpWrite_def ERR_OK_def)

subsection \<open>C4: the count that \<open>Write\<close> returns\<close>

text \<open>
  Claim C4 at a failing input. With the write gate free, two bytes are written while the
  engine has room for one; the engine takes the first byte, the writer waits, and the
  connection is locally closed before it wakes up. \<open>Write\<close> returns the count 0 with the
  error, although the engine accepted one byte, and leaves the write gate locked; the same
  happens when the connection is aborted meanwhile. When the second turn fails in
  \<open>tcp_write\<close> instead, the count returned is 1 and the gate is unlocked: that path returns
  \<open>totalWritten\<close>, the path of the flags returns the constant 0.
\<close>

theorem Write_partial_then_closed:
  "Write False turn1 [turn2] [10, 20] =
     \<lparr>outcome = Returns (0, Some ''connection 10.0.0.1:4321->10.0.0.2:80 was closed by local''),
      calls = [\<lparr>window = 1, chunk = [10], answer = ERR_OK,
                engine = [C_tcp_write 7 [10] 1, C_tcp_output 7]\<rparr>],
      gate_held = True\<rparr>
   \<and> accepted (calls (Write False turn1 [turn2] [10, 20])) = 1
   \<and> outcome (Write False turn1 [turn4] [10, 20]) =
       Returns (0, Some ''connection 10.0.0.1:4321->10.0.0.2:80 is aborting'')
   \<and> accepted (calls (Write False turn1 [turn4] [10, 20])) = 1
   \<and> outcome (Write False turn1 [turn3] [10, 20]) =
       Returns (1, Some ''lwip tcp_write failed with error code: -6'')
   \<and> accepted (calls (Write False turn1 [turn3] [10, 20])) = 1
   \<and> \<not> gate_held (Write False turn1 [turn3] [10, 20])"
  by (simp add: Write_def Write_loop.simps turn1_def turn2_def turn3_def turn4_def conn0_def
      tcpWrite_def ERR_OK_def ERR_MEM_def accepted_def show_int_def show_nat_small digit_char_def)

subsection \<open>The write gate after a return on the flags\<close>

text \<open>
  A \<open>Write\<close> that starts with the gate free and returns on \<open>localClosed\<close> or \<open>aborting\<close>
  leaves the gate locked; every other way out of the loop leaves it free. A \<open>Write\<close> that
  finds the gate locked makes no call and does not return.
\<close>

lemma Write_flag_return_holds_gate:
  assumes "data \<noteq> []" and "localClosed (seen t) \<or> aborting (seen t)"
  shows "gate_held (Write False t ts data)"
  using assms by (auto simp: Write_def Write_loop.simps [of t ts])

lemma Write_on_held_gate:
  "Write True t ts data = \<lparr>outcome = Blocks, calls = [], gate_held = True\<rparr>"
  by (simp add: Write_def)

lemma Write_twice_on_local_close:
  "outcome (Write (gate_held (Write False turn2 [] [10, 20])) turn2 [] [10, 20]) = Blocks
   \<and> outcome (Write (gate_held (Write False turn2 [] [10, 20])) turn2 [] []) = Blocks"
  by (simp add: Write_def Write_loop.simps turn2_def)

subsection \<open>C6: \<open>Write\<close> on a locally closed connection\<close>




end
